theory Spec2Isabelle
  imports Main
begin

section \<open>Data model (src/src/App.tsx, lines 6-32)\<close>

text \<open>
  The four TypeScript interfaces become records. Field names that would clash with each
  other or with a HOL constant carry a prefix: \<open>DetectedSavePath.exists\<close> is
  \<open>path_exists\<close>, \<open>DetectedSavePath.total_size_bytes\<close> is \<open>path_total_size_bytes\<close>,
  \<open>DetectedGame.name\<close> is \<open>game_name\<close>, \<open>GameProfile.id\<close> and \<open>GameProfile.name\<close> are
  \<open>profile_id\<close> and \<open>profile_name\<close>. Byte and file counts are natural numbers (they are
  serialised unsigned integers), \<open>string | null\<close> is \<open>string option\<close>.
\<close>

record DetectedSavePath =
  pattern :: string
  resolved_path :: string
  path_exists :: bool
  file_count :: nat
  path_total_size_bytes :: nat

record DetectedGame =
  game_name :: string
  paths :: "DetectedSavePath list"
  total_size_bytes :: nat
  last_modified :: "string option"

record AuthStatus =
  is_authenticated :: bool
  device_id :: "string option"
  user_email :: "string option"
  plan_name :: "string option"

record GameProfile =
  profile_id :: string
  profile_name :: string
  platform :: string

section \<open>Strings\<close>

text \<open>
  \<open>show_nat\<close> is the decimal rendering of a non-negative integer, as template literals
  produce it. The two methods of JavaScript strings that the component calls,
  \<open>toLowerCase\<close> and \<open>trim\<close>, work on the whole Unicode repertoire; the model does not
  define them but takes them as given, as fields of the record \<open>backend\<close> below.
\<close>

definition digit :: "nat \<Rightarrow> char" where
  "digit d = ''0123456789'' ! d"

fun show_nat :: "nat \<Rightarrow> string" where
  "show_nat n = (if n < 10 then [digit n] else show_nat (n div 10) @ [digit (n mod 10)])"

declare show_nat.simps [simp del]

section \<open>The backend behind invoke, and the component state\<close>

text \<open>
  The Tauri commands reached through \<open>invoke\<close> are not part of the front end. They are
  a parameter of the model: a \<open>backend\<close> answers each command either with a value
  (\<open>Inr\<close>) or by rejecting with an error text (\<open>Inl\<close>), and its answer may depend on
  everything invoked before (the trace). Every invocation is appended to the trace
  \<open>calls\<close> together with its outcome, so that statements about which remote calls were
  issued can be made. An invocation that is awaited is appended when it is made; the one
  invocation that is not awaited (\<open>get_game_profiles\<close>, see \<open>loadGameProfiles\<close>) is
  appended when it settles. The record also holds the string methods \<open>toLowerCase\<close> and
  \<open>trim\<close> of the JavaScript runtime.
\<close>

datatype call =
    GetAuthStatus
  | Login string string
  | Logout
  | ScanGames
  | GetGameProfiles
  | CreateGameProfile string string
  | UploadSaves "DetectedGame list" string

datatype outcome =
    Rejected string
  | ResolvedAuth AuthStatus
  | ResolvedGames "DetectedGame list"
  | ResolvedProfiles "GameProfile list"
  | ResolvedProfile GameProfile
  | ResolvedUnit

type_synonym trace = "(call \<times> outcome) list"

record backend =
  get_auth_status :: "trace \<Rightarrow> string + AuthStatus"
  login :: "trace \<Rightarrow> string \<Rightarrow> string \<Rightarrow> string + AuthStatus"
  logout :: "trace \<Rightarrow> string + unit"
  scan_games :: "trace \<Rightarrow> string + DetectedGame list"
  get_game_profiles :: "trace \<Rightarrow> string + GameProfile list"
  create_game_profile :: "trace \<Rightarrow> string \<Rightarrow> string \<Rightarrow> string + GameProfile"
  upload_saves :: "trace \<Rightarrow> DetectedGame list \<Rightarrow> string \<Rightarrow> string + unit"
  toLowerCase :: "string \<Rightarrow> string"
  trim :: "string \<Rightarrow> string"

datatype tab = Games | Settings

text \<open>
  The \<open>useState\<close> cells of \<open>App\<close> (lines 43-56), followed by what the component has
  going on outside them: the number of \<open>get_game_profiles\<close> invocations that have been
  started and have not settled yet, the trace of \<open>invoke\<close> calls, and the lines written
  with \<open>console.error\<close> (message and error text).
\<close>

record app_state =
  authStatus :: "AuthStatus option"
  detectedGames :: "DetectedGame list"
  selectedGames :: "string set"
  gameProfiles :: "GameProfile list"
  isScanning :: bool
  isUploading :: bool
  activeTab :: tab
  error :: "string option"
  successMessage :: "string option"
  sessionCookie :: string
  deviceName :: string
  isLoggingIn :: bool
  showLoginForm :: bool
  profileLoads :: nat
  calls :: trace
  console :: "(string \<times> string) list"

definition initial_state :: app_state where
  "initial_state =
     \<lparr>authStatus = None, detectedGames = [], selectedGames = {}, gameProfiles = [],
      isScanning = False, isUploading = False, activeTab = Games, error = None,
      successMessage = None, sessionCookie = '''', deviceName = '''', isLoggingIn = False,
      showLoginForm = False, profileLoads = 0, calls = [], console = []\<rparr>"

definition invoked :: "call \<Rightarrow> outcome \<Rightarrow> app_state \<Rightarrow> app_state" where
  "invoked c r s = s\<lparr>calls := calls s @ [(c, r)]\<rparr>"

definition console_error :: "string \<Rightarrow> string \<Rightarrow> app_state \<Rightarrow> app_state" where
  "console_error msg e s = s\<lparr>console := console s @ [(msg, e)]\<rparr>"

section \<open>Handlers (lines 73-235)\<close>







subsection \<open>handleUpload (lines 155-215)\<close>

text \<open>
  The locals \<open>successCount\<close> and \<open>failCount\<close> travel with the component state through
  the loop. \<open>cache\<close> is the value of the constant \<open>gameProfiles\<close> that the handler closes
  over: the profile list as it was rendered when the handler started. The updater
  \<open>setGameProfiles((prev) => [...prev, newProfile])\<close> appends to the state cell, not to
  that constant. \<open>find_profile\<close> is line 170, \<open>upload_under\<close> lines 187-198 (a profile
  object is never falsy, so the guard \<open>if (profile)\<close> always passes), \<open>upload_game\<close>
  the loop body, lines 170-198.
\<close>

record upload_state =
  successCount :: nat
  failCount :: nat
  app :: app_state

definition find_profile :: "backend \<Rightarrow> GameProfile list \<Rightarrow> DetectedGame \<Rightarrow> GameProfile option" where
  "find_profile be cache game =
     List.find (\<lambda>p. toLowerCase be (profile_name p) = toLowerCase be (game_name game)) cache"

definition upload_under :: "backend \<Rightarrow> DetectedGame \<Rightarrow> GameProfile \<Rightarrow> upload_state \<Rightarrow> upload_state" where
  "upload_under be game profile u =
     (let c = UploadSaves [game] (profile_id profile)
      in case upload_saves be (calls (app u)) [game] (profile_id profile) of
           Inr r \<Rightarrow> u\<lparr>successCount := successCount u + 1, app := invoked c ResolvedUnit (app u)\<rparr>
         | Inl e \<Rightarrow>
             u\<lparr>failCount := failCount u + 1,
               app := console_error (''Failed to upload '' @ game_name game @ '':'') e
                        (invoked c (Rejected e) (app u))\<rparr>)"

definition upload_game :: "backend \<Rightarrow> GameProfile list \<Rightarrow> DetectedGame \<Rightarrow> upload_state \<Rightarrow> upload_state" where
  "upload_game be cache game u =
     (case find_profile be cache game of
        Some profile \<Rightarrow> upload_under be game profile u
      | None \<Rightarrow>
          (let c = CreateGameProfile (game_name game) ''PC''
           in case create_game_profile be (calls (app u)) (game_name game) ''PC'' of
                Inr newProfile \<Rightarrow>
                  upload_under be game newProfile
                    (u\<lparr>app := (invoked c (ResolvedProfile newProfile) (app u))
                                \<lparr>gameProfiles := gameProfiles (app u) @ [newProfile]\<rparr>\<rparr>)
              | Inl e \<Rightarrow>
                  u\<lparr>failCount := failCount u + 1,
                    app := console_error (''Failed to create profile for '' @ game_name game @ '':'') e
                             (invoked c (Rejected e) (app u))\<rparr>))"

definition gamesToUpload :: "app_state \<Rightarrow> DetectedGame list" where
  "gamesToUpload s = filter (\<lambda>g. game_name g \<in> selectedGames s) (detectedGames s)"

definition upload_loop :: "backend \<Rightarrow> GameProfile list \<Rightarrow> DetectedGame list \<Rightarrow> upload_state \<Rightarrow> upload_state" where
  "upload_loop be cache games u = fold (upload_game be cache) games u"

text \<open>
  \<open>upload_batch\<close> is the part of \<open>handleUpload\<close> from line 161 to the end of the loop:
  it gives the counters and the state when the loop is left.
\<close>

definition upload_batch :: "backend \<Rightarrow> app_state \<Rightarrow> upload_state" where
  "upload_batch be s =
     upload_loop be (gameProfiles s) (gamesToUpload s)
       \<lparr>successCount = 0, failCount = 0, app = s\<lparr>isUploading := True, error := None\<rparr>\<rparr>"

definition handleUpload :: "backend \<Rightarrow> app_state \<Rightarrow> app_state" where
  "handleUpload be s =
     (if selectedGames s = {} then s\<lparr>error := Some ''Please select at least one game to backup''\<rparr>
      else
        (let u = upload_batch be s;
             s1 = (app u)\<lparr>selectedGames := {}\<rparr>;
             s2 = (if successCount u > 0
                   then s1\<lparr>successMessage :=
                             Some (''Successfully backed up '' @ show_nat (successCount u) @ '' game(s)!'')\<rparr>
                   else s1);
             s3 = (if failCount u > 0
                   then s2\<lparr>error :=
                             Some (''Failed to backup '' @ show_nat (failCount u) @
                                   '' game(s). Check logs for details.'')\<rparr>
                   else s2)
         in s3\<lparr>isUploading := False\<rparr>))"

subsection \<open>Selection (lines 217-235)\<close>

definition toggle_updater :: "string \<Rightarrow> string set \<Rightarrow> string set" where
  "toggle_updater gameName prev =
     (if gameName \<in> prev then prev - {gameName} else insert gameName prev)"

definition toggleGameSelection :: "string \<Rightarrow> app_state \<Rightarrow> app_state" where
  "toggleGameSelection gameName s = s\<lparr>selectedGames := toggle_updater gameName (selectedGames s)\<rparr>"

definition selectAll :: "app_state \<Rightarrow> app_state" where
  "selectAll s = s\<lparr>selectedGames := set (map game_name (detectedGames s))\<rparr>"


section \<open>The rendered screen: which handler an event reaches (lines 58-71, 237-565)\<close>





section \<open>Reading the trace\<close>

text \<open>
  \<open>step_calls s s'\<close> are the invocations added between two states. The remaining
  functions classify trace entries: an upload that was accepted, an invocation that was
  rejected, a request to create a profile of a given name, and the profiles that
  creation requests returned.
\<close>

definition step_calls :: "app_state \<Rightarrow> app_state \<Rightarrow> trace" where
  "step_calls s s' = drop (length (calls s)) (calls s')"

definition batch_calls :: "backend \<Rightarrow> app_state \<Rightarrow> trace" where
  "batch_calls be s = step_calls s (app (upload_batch be s))"

fun succeeded_upload :: "call \<times> outcome \<Rightarrow> bool" where
  "succeeded_upload (UploadSaves games pid, ResolvedUnit) = True"
| "succeeded_upload e = False"

fun rejected :: "call \<times> outcome \<Rightarrow> bool" where
  "rejected (c, Rejected e) = True"
| "rejected e = False"

fun creates_named :: "string \<Rightarrow> call \<times> outcome \<Rightarrow> bool" where
  "creates_named n (CreateGameProfile m pf, r) = (m = n)"
| "creates_named n e = False"

fun created_by :: "call \<times> outcome \<Rightarrow> GameProfile list" where
  "created_by (CreateGameProfile m pf, ResolvedProfile p) = [p]"
| "created_by e = []"

definition created_profiles :: "trace \<Rightarrow> GameProfile list" where
  "created_profiles tr = concat (map created_by tr)"

text \<open>
  \<open>game_calls\<close> and \<open>loop_calls\<close> are the invocations that one pass of the loop body,
  and the whole loop, add to the trace. \<open>game_trace\<close> writes the former out in terms
  of the backend's answers.
\<close>

definition game_calls :: "backend \<Rightarrow> GameProfile list \<Rightarrow> DetectedGame \<Rightarrow> upload_state \<Rightarrow> trace" where
  "game_calls be cache g u = step_calls (app u) (app (upload_game be cache g u))"

definition loop_calls :: "backend \<Rightarrow> GameProfile list \<Rightarrow> DetectedGame list \<Rightarrow> upload_state \<Rightarrow> trace" where
  "loop_calls be cache gs u = step_calls (app u) (app (upload_loop be cache gs u))"

definition upload_outcome :: "string + unit \<Rightarrow> outcome" where
  "upload_outcome a = (case a of Inl e \<Rightarrow> Rejected e | Inr r \<Rightarrow> ResolvedUnit)"

definition game_trace :: "backend \<Rightarrow> GameProfile list \<Rightarrow> DetectedGame \<Rightarrow> trace \<Rightarrow> trace" where
  "game_trace be cache g tr =
     (case find_profile be cache g of
        Some p \<Rightarrow> [(UploadSaves [g] (profile_id p), upload_outcome (upload_saves be tr [g] (profile_id p)))]
      | None \<Rightarrow>
          (case create_game_profile be tr (game_name g) ''PC'' of
             Inl e \<Rightarrow> [(CreateGameProfile (game_name g) ''PC'', Rejected e)]
           | Inr p \<Rightarrow>
               [(CreateGameProfile (game_name g) ''PC'', ResolvedProfile p),
                (UploadSaves [g] (profile_id p),
                 upload_outcome
                   (upload_saves be (tr @ [(CreateGameProfile (game_name g) ''PC'', ResolvedProfile p)])
                      [g] (profile_id p)))]))"

section \<open>Scanner\<close>

text \<open>
  Modelled from the spec: the scanner behind the \<open>scan_games\<close> command (the component
  Scanner of the specification, section 4.2, with the data model of section 3) is not
  part of the front-end sources; this is the specified behaviour. The path resolver is
  a parameter \<open>resolve\<close> (\<open>None\<close> for a malformed pattern, which drops the whole entry),
  the file system a parameter \<open>fs\<close> that gives the object found at an absolute path,
  \<open>show_time\<close> renders a modification time. A directory is walked recursively, totals
  are accumulated file by file, entries that cannot be read are skipped, a path that
  does not exist stays in \<open>paths\<close> with zero counts, a game without any existing path is
  left out of the result.
\<close>

record ManifestEntry =
  entry_game_name :: string
  path_patterns :: "string list"

record ResolvedPath =
  source_pattern :: string
  absolute_path :: string
  rp_exists :: bool

datatype fs_node = RegularFile nat nat | Inaccessible | Directory "fs_node list"

record tally =
  tally_files :: nat
  tally_bytes :: nat
  tally_latest :: "nat option"

fun newest :: "nat option \<Rightarrow> nat option \<Rightarrow> nat option" where
  "newest None t = t"
| "newest (Some a) None = Some a"
| "newest (Some a) (Some b) = Some (max a b)"

text \<open>
  Modelled from the spec: the recursive enumeration of a resolved directory (section 4.2),
  which is not in the front-end sources. Regular files are counted and summed one by one,
  the latest modification time is tracked, unreadable entries are skipped.
\<close>

fun walk :: "fs_node \<Rightarrow> tally \<Rightarrow> tally" where
  "walk (RegularFile sz mtime) t =
     t\<lparr>tally_files := tally_files t + 1, tally_bytes := tally_bytes t + sz,
       tally_latest := newest (tally_latest t) (Some mtime)\<rparr>"
| "walk Inaccessible t = t"
| "walk (Directory nodes) t = fold walk nodes t"

text \<open>
  Modelled from the spec: \<open>scan_path\<close> (section 4.2), not in the front-end sources. A path
  that does not exist, or whose root cannot be read, yields zero counts and
  \<open>exists = false\<close>.
\<close>

definition scan_path :: "(string \<Rightarrow> fs_node option) \<Rightarrow> ResolvedPath \<Rightarrow> DetectedSavePath \<times> nat option" where
  "scan_path fs rp =
     (case (if rp_exists rp then fs (absolute_path rp) else None) of
        Some node \<Rightarrow>
          (let t = walk node \<lparr>tally_files = 0, tally_bytes = 0, tally_latest = None\<rparr>
           in (\<lparr>pattern = source_pattern rp, resolved_path = absolute_path rp, path_exists = True,
                file_count = tally_files t, path_total_size_bytes = tally_bytes t\<rparr>,
               tally_latest t))
      | None \<Rightarrow>
          (\<lparr>pattern = source_pattern rp, resolved_path = absolute_path rp, path_exists = False,
            file_count = 0, path_total_size_bytes = 0\<rparr>,
           None))"

fun resolve_all :: "(string \<Rightarrow> ResolvedPath list option) \<Rightarrow> string list \<Rightarrow> ResolvedPath list option" where
  "resolve_all resolve [] = Some []"
| "resolve_all resolve (p # ps) =
     (case resolve p of
        None \<Rightarrow> None
      | Some rs \<Rightarrow> (case resolve_all resolve ps of None \<Rightarrow> None | Some rest \<Rightarrow> Some (rs @ rest)))"

fun dedupe_paths :: "string list \<Rightarrow> ResolvedPath list \<Rightarrow> ResolvedPath list" where
  "dedupe_paths seen [] = []"
| "dedupe_paths seen (rp # rps) =
     (if absolute_path rp \<in> set seen then dedupe_paths seen rps
      else rp # dedupe_paths (absolute_path rp # seen) rps)"

text \<open>
  Modelled from the spec: the scan of one manifest entry (sections 3, 4.1 and 4.2), not in
  the front-end sources. Paths resolving to the same absolute path are kept once,
  \<open>total_size_bytes\<close> is accumulated over the scanned paths, and a game without any
  existing path yields no result.
\<close>

definition scan_entry ::
  "(string \<Rightarrow> ResolvedPath list option) \<Rightarrow> (string \<Rightarrow> fs_node option) \<Rightarrow> (nat \<Rightarrow> string) \<Rightarrow>
   ManifestEntry \<Rightarrow> DetectedGame option" where
  "scan_entry resolve fs show_time e =
     (case resolve_all resolve (path_patterns e) of
        None \<Rightarrow> None
      | Some rps \<Rightarrow>
          (let scanned = map (scan_path fs) (dedupe_paths [] rps);
               ps = map fst scanned
           in if list_ex path_exists ps
              then Some \<lparr>game_name = entry_game_name e, paths = ps,
                         total_size_bytes = fold (\<lambda>p acc. acc + path_total_size_bytes p) ps 0,
                         last_modified =
                           map_option show_time (fold (\<lambda>x acc. newest acc (snd x)) scanned None)\<rparr>
              else None))"

text \<open>
  Modelled from the spec: \<open>scan\<close> (section 4.2), the operation behind the \<open>scan_games\<close>
  command, not in the front-end sources.
\<close>

definition scan ::
  "(string \<Rightarrow> ResolvedPath list option) \<Rightarrow> (string \<Rightarrow> fs_node option) \<Rightarrow> (nat \<Rightarrow> string) \<Rightarrow>
   ManifestEntry list \<Rightarrow> DetectedGame list" where
  "scan resolve fs show_time entries = List.map_filter (scan_entry resolve fs show_time) entries"

section \<open>Sample data\<close>

definition game :: "string \<Rightarrow> DetectedGame" where
  "game n =
     \<lparr>game_name = n,
      paths = [\<lparr>pattern = ''<home>/saves'', resolved_path = ''C:/Users/u/saves'', path_exists = True,
                file_count = 2, path_total_size_bytes = 4096\<rparr>],
      total_size_bytes = 4096, last_modified = None\<rparr>"

definition profile_for :: "string \<Rightarrow> string \<Rightarrow> GameProfile" where
  "profile_for n pf = \<lparr>profile_id = ''id-'' @ n, profile_name = n, platform = pf\<rparr>"

definition signed_in :: AuthStatus where
  "signed_in = \<lparr>is_authenticated = True, device_id = Some ''dev-1'',
                user_email = Some ''u@example.org'', plan_name = Some ''free''\<rparr>"

text \<open>
  The two string methods on ASCII text, for the sample backend: letters A-Z are folded
  to a-z, and blank, tab, line feed, vertical tab, form feed and carriage return are
  stripped at both ends.
\<close>

definition ascii_lower_char :: "char \<Rightarrow> char" where
  "ascii_lower_char c =
     (case map_of (zip ''ABCDEFGHIJKLMNOPQRSTUVWXYZ'' ''abcdefghijklmnopqrstuvwxyz'') c of
        Some l \<Rightarrow> l
      | None \<Rightarrow> c)"

definition ascii_toLowerCase :: "string \<Rightarrow> string" where
  "ascii_toLowerCase s = map ascii_lower_char s"

definition ascii_is_space :: "char \<Rightarrow> bool" where
  "ascii_is_space c = (c \<in> set [CHR '' '', CHR 0x09, CHR 0x0A, CHR 0x0B, CHR 0x0C, CHR 0x0D])"

definition ascii_trim :: "string \<Rightarrow> string" where
  "ascii_trim s = rev (dropWhile ascii_is_space (rev (dropWhile ascii_is_space s)))"

text \<open>
  A backend that creates every profile asked for except one for \<open>Hades\<close>, accepts
  every upload except one under the profile of \<open>Celeste\<close>, and answers a profile load
  with the empty list.
\<close>

definition sample_backend :: backend where
  "sample_backend =
     \<lparr>get_auth_status = (\<lambda>tr. Inr signed_in),
      login = (\<lambda>tr cookie device. Inr signed_in),
      logout = (\<lambda>tr. Inr ()),
      scan_games = (\<lambda>tr. Inr [game ''Doom'', game ''Celeste'', game ''Hades'']),
      get_game_profiles = (\<lambda>tr. Inr []),
      create_game_profile =
        (\<lambda>tr n pf. if n = ''Hades'' then Inl ''quota exceeded'' else Inr (profile_for n pf)),
      upload_saves =
        (\<lambda>tr games pid. if pid = ''id-Celeste'' then Inl ''network error'' else Inr ()),
      toLowerCase = ascii_toLowerCase,
      trim = ascii_trim\<rparr>"

text \<open>
  The example scenario of the specification for the scanner: one manifest entry with one
  pattern, which resolves to a directory holding two files of 4096 bytes together.
\<close>

definition example_entry :: ManifestEntry where
  "example_entry = \<lparr>entry_game_name = ''Example Game'', path_patterns = [''<appdata>/ExampleGame/saves'']\<rparr>"

definition example_resolve :: "string \<Rightarrow> ResolvedPath list option" where
  "example_resolve pat =
     (if pat = ''<appdata>/ExampleGame/saves''
      then Some [\<lparr>source_pattern = pat, absolute_path = ''C:/AppData/ExampleGame/saves'', rp_exists = True\<rparr>]
      else None)"

definition example_fs :: "string \<Rightarrow> fs_node option" where
  "example_fs path =
     (if path = ''C:/AppData/ExampleGame/saves''
      then Some (Directory [RegularFile 1024 100, Inaccessible, Directory [RegularFile 3072 200]])
      else None)"

definition sample_state :: "string list \<Rightarrow> GameProfile list \<Rightarrow> app_state" where
  "sample_state names cache =
     initial_state\<lparr>authStatus := Some signed_in, detectedGames := map game names,
                   selectedGames := set names, gameProfiles := cache\<rparr>"





section \<open>Selection\<close>

lemma toggle_updater_twice: "toggle_updater g (toggle_updater g sel) = sel"
  by (auto simp: toggle_updater_def)

text \<open>
  Claim C9. Toggling a game's selection twice gives back the selection set (and the
  whole state) one started from; one application flips the membership of that game
  and leaves the membership of every other name as it was.
\<close>

theorem toggleGameSelection_involution:
  "toggle_updater g (toggle_updater g sel) = sel
   \<and> toggleGameSelection g (toggleGameSelection g s) = s
   \<and> (g \<in> selectedGames (toggleGameSelection g s) \<longleftrightarrow> g \<notin> selectedGames s)
   \<and> (\<forall>h. h \<noteq> g \<longrightarrow> (h \<in> selectedGames (toggleGameSelection g s) \<longleftrightarrow> h \<in> selectedGames s))"
proof (intro conjI allI impI)
  show "toggle_updater g (toggle_updater g sel) = sel" by (rule toggle_updater_twice)
  show "toggleGameSelection g (toggleGameSelection g s) = s"
    by (simp add: toggleGameSelection_def toggle_updater_twice)
  show "g \<in> selectedGames (toggleGameSelection g s) \<longleftrightarrow> g \<notin> selectedGames s"
    by (simp add: toggleGameSelection_def toggle_updater_def)
  fix h assume "h \<noteq> g"
  then show "h \<in> selectedGames (toggleGameSelection g s) \<longleftrightarrow> h \<in> selectedGames s"
    by (simp add: toggleGameSelection_def toggle_updater_def)
qed

theorem toggleGameSelection_involution_witness:
  "''Celeste'' \<noteq> ''Doom''
   \<and> toggleGameSelection ''Doom'' (toggleGameSelection ''Doom'' (initial_state\<lparr>selectedGames := {''Celeste''}\<rparr>))
       = initial_state\<lparr>selectedGames := {''Celeste''}\<rparr>
   \<and> selectedGames (toggleGameSelection ''Doom'' (initial_state\<lparr>selectedGames := {''Celeste''}\<rparr>))
       = {''Celeste'', ''Doom''}"
proof -
  let ?s = "initial_state\<lparr>selectedGames := {''Celeste''}\<rparr>"
  have ne: "''Celeste'' \<noteq> ''Doom''" by simp
  from toggleGameSelection_involution [of "''Doom''" "{''Celeste''}" ?s]
  have twice: "toggleGameSelection ''Doom'' (toggleGameSelection ''Doom'' ?s) = ?s"
    and flip: "''Doom'' \<in> selectedGames (toggleGameSelection ''Doom'' ?s) \<longleftrightarrow> ''Doom'' \<notin> selectedGames ?s"
    and others: "\<forall>h. h \<noteq> ''Doom'' \<longrightarrow>
                   (h \<in> selectedGames (toggleGameSelection ''Doom'' ?s) \<longleftrightarrow> h \<in> selectedGames ?s)"
    by blast+
  from flip have d: "''Doom'' \<in> selectedGames (toggleGameSelection ''Doom'' ?s)" by simp
  from others have o: "\<And>h. h \<noteq> ''Doom'' \<Longrightarrow>
      h \<in> selectedGames (toggleGameSelection ''Doom'' ?s) \<longleftrightarrow> h = ''Celeste''" by simp
  have "selectedGames (toggleGameSelection ''Doom'' ?s) = {''Celeste'', ''Doom''}"
  proof (rule set_eqI)
    fix h show "h \<in> selectedGames (toggleGameSelection ''Doom'' ?s) \<longleftrightarrow> h \<in> {''Celeste'', ''Doom''}"
      using d o [of h] by (cases "h = ''Doom''") auto
  qed
  with ne twice show ?thesis by blast
qed

section \<open>One pass of the upload loop\<close>

lemma invoked_simps [simp]:
  "calls (invoked c r s) = calls s @ [(c, r)]"
  "gameProfiles (invoked c r s) = gameProfiles s"
  "selectedGames (invoked c r s) = selectedGames s"
  "detectedGames (invoked c r s) = detectedGames s"
  "authStatus (invoked c r s) = authStatus s"
  "profileLoads (invoked c r s) = profileLoads s"
  by (simp_all add: invoked_def)

lemma console_error_simps [simp]:
  "calls (console_error m e s) = calls s"
  "gameProfiles (console_error m e s) = gameProfiles s"
  "selectedGames (console_error m e s) = selectedGames s"
  "detectedGames (console_error m e s) = detectedGames s"
  "authStatus (console_error m e s) = authStatus s"
  "profileLoads (console_error m e s) = profileLoads s"
  by (simp_all add: console_error_def)

lemma step_calls_append: "calls s' = calls s @ new \<Longrightarrow> step_calls s s' = new"
  by (simp add: step_calls_def)

lemma upload_under_calls:
  "calls (app (upload_under be g p u)) =
     calls (app u) @
     [(UploadSaves [g] (profile_id p), upload_outcome (upload_saves be (calls (app u)) [g] (profile_id p)))]"
  by (simp add: upload_under_def upload_outcome_def Let_def split: sum.splits)

lemma upload_under_profiles: "gameProfiles (app (upload_under be g p u)) = gameProfiles (app u)"
  by (simp add: upload_under_def Let_def split: sum.splits)


lemma upload_under_success:
  "successCount (upload_under be g p u) =
     successCount u + (case upload_saves be (calls (app u)) [g] (profile_id p) of Inl e \<Rightarrow> 0 | Inr r \<Rightarrow> 1)"
  by (simp add: upload_under_def Let_def split: sum.splits)

lemma upload_under_fail:
  "failCount (upload_under be g p u) =
     failCount u + (case upload_saves be (calls (app u)) [g] (profile_id p) of Inl e \<Rightarrow> 1 | Inr r \<Rightarrow> 0)"
  by (simp add: upload_under_def Let_def split: sum.splits)

lemma calls_upload_game:
  "calls (app (upload_game be cache g u)) = calls (app u) @ game_trace be cache g (calls (app u))"
  by (simp add: upload_game_def game_trace_def upload_under_calls Let_def split: option.splits sum.splits)

lemma game_calls_eq: "game_calls be cache g u = game_trace be cache g (calls (app u))"
  unfolding game_calls_def by (rule step_calls_append) (rule calls_upload_game)

lemma profiles_upload_game:
  "gameProfiles (app (upload_game be cache g u)) =
     gameProfiles (app u) @ created_profiles (game_calls be cache g u)"
  by (simp add: game_calls_eq upload_game_def game_trace_def upload_under_profiles created_profiles_def
        Let_def split: option.splits sum.splits)


lemma success_upload_game:
  "successCount (upload_game be cache g u) =
     successCount u + length (filter succeeded_upload (game_calls be cache g u))"
  by (simp add: game_calls_eq upload_game_def game_trace_def upload_under_success upload_outcome_def
        Let_def split: option.splits sum.splits)

lemma fail_upload_game:
  "failCount (upload_game be cache g u) = failCount u + length (filter rejected (game_calls be cache g u))"
  by (simp add: game_calls_eq upload_game_def game_trace_def upload_under_fail upload_outcome_def
        Let_def split: option.splits sum.splits)

lemma one_outcome_per_game:
  "length (filter succeeded_upload (game_calls be cache g u)) +
   length (filter rejected (game_calls be cache g u)) = 1"
  by (simp add: game_calls_eq game_trace_def upload_outcome_def split: option.splits sum.splits)

lemma game_attempted:
  "(\<exists>e. (CreateGameProfile (game_name g) ''PC'', Rejected e) \<in> set (game_calls be cache g u))
   \<or> (\<exists>pid r. (UploadSaves [g] pid, r) \<in> set (game_calls be cache g u))"
  by (simp add: game_calls_eq game_trace_def split: option.splits sum.splits)

section \<open>The upload loop\<close>

lemma upload_loop_Nil [simp]: "upload_loop be cache [] u = u"
  by (simp add: upload_loop_def)

lemma upload_loop_Cons [simp]:
  "upload_loop be cache (g # gs) u = upload_loop be cache gs (upload_game be cache g u)"
  by (simp add: upload_loop_def)

lemma calls_upload_loop:
  "calls (app (upload_loop be cache gs u)) = calls (app u) @ loop_calls be cache gs u"
proof (induction gs arbitrary: u)
  case Nil
  show ?case by (simp add: loop_calls_def step_calls_def)
next
  case (Cons g gs)
  have *: "calls (app (upload_loop be cache (g # gs) u)) =
          calls (app u) @ (game_calls be cache g u @ loop_calls be cache gs (upload_game be cache g u))"
    by (simp add: Cons.IH calls_upload_game game_calls_eq)
  have "loop_calls be cache (g # gs) u =
          game_calls be cache g u @ loop_calls be cache gs (upload_game be cache g u)"
    unfolding loop_calls_def [of be cache "g # gs" u] by (rule step_calls_append) (rule *)
  with * show ?case by simp
qed

lemma loop_calls_Nil [simp]: "loop_calls be cache [] u = []"
  by (simp add: loop_calls_def step_calls_def)

lemma loop_calls_Cons:
  "loop_calls be cache (g # gs) u =
     game_calls be cache g u @ loop_calls be cache gs (upload_game be cache g u)"
proof -
  have "calls (app (upload_loop be cache (g # gs) u)) =
          calls (app u) @ (game_calls be cache g u @ loop_calls be cache gs (upload_game be cache g u))"
    by (simp add: calls_upload_loop calls_upload_game game_calls_eq)
  then show ?thesis unfolding loop_calls_def by (rule step_calls_append)
qed

lemma created_profiles_append [simp]:
  "created_profiles (a @ b) = created_profiles a @ created_profiles b"
  by (simp add: created_profiles_def)

lemma profiles_upload_loop:
  "gameProfiles (app (upload_loop be cache gs u)) =
     gameProfiles (app u) @ created_profiles (loop_calls be cache gs u)"
  by (induction gs arbitrary: u) (simp_all add: loop_calls_Cons profiles_upload_game created_profiles_def)


lemma success_upload_loop:
  "successCount (upload_loop be cache gs u) =
     successCount u + length (filter succeeded_upload (loop_calls be cache gs u))"
  by (induction gs arbitrary: u) (simp_all add: loop_calls_Cons success_upload_game)

lemma fail_upload_loop:
  "failCount (upload_loop be cache gs u) =
     failCount u + length (filter rejected (loop_calls be cache gs u))"
  by (induction gs arbitrary: u) (simp_all add: loop_calls_Cons fail_upload_game)

lemma one_outcome_per_game_loop:
  "length (filter succeeded_upload (loop_calls be cache gs u)) +
   length (filter rejected (loop_calls be cache gs u)) = length gs"
proof (induction gs arbitrary: u)
  case Nil
  show ?case by simp
next
  case (Cons g gs)
  from one_outcome_per_game [of be cache g u] Cons.IH [of "upload_game be cache g u"]
  show ?case by (simp add: loop_calls_Cons)
qed

lemma every_game_attempted:
  "g \<in> set gs \<Longrightarrow>
   (\<exists>e. (CreateGameProfile (game_name g) ''PC'', Rejected e) \<in> set (loop_calls be cache gs u))
   \<or> (\<exists>pid r. (UploadSaves [g] pid, r) \<in> set (loop_calls be cache gs u))"
proof (induction gs arbitrary: u)
  case Nil
  then show ?case by simp
next
  case (Cons x gs)
  show ?case
  proof (cases "g = x")
    case True
    with game_attempted [of x be cache u] show ?thesis
      by (auto simp: loop_calls_Cons)
  next
    case False
    with Cons.prems have "g \<in> set gs" by simp
    from Cons.IH [OF this, of "upload_game be cache x u"] show ?thesis
      by (auto simp: loop_calls_Cons)
  qed
qed

lemma batch_calls_eq:
  "batch_calls be s =
     loop_calls be (gameProfiles s) (gamesToUpload s)
       \<lparr>successCount = 0, failCount = 0, app = s\<lparr>isUploading := True, error := None\<rparr>\<rparr>"
proof -
  let ?u = "\<lparr>successCount = 0, failCount = 0, app = s\<lparr>isUploading := True, error := None\<rparr>\<rparr>"
  have "calls (app (upload_batch be s)) = calls s @ loop_calls be (gameProfiles s) (gamesToUpload s) ?u"
    by (simp add: upload_batch_def calls_upload_loop)
  then show ?thesis unfolding batch_calls_def by (rule step_calls_append)
qed

text \<open>
  Claim C1. The batch is \<open>gamesToUpload\<close>, the detected games whose name is selected.
  Every game of the batch has one outcome of its own: the two counters add up to the
  number of games in the batch, \<open>successCount\<close> is the number of uploads the backend
  accepted, \<open>failCount\<close> the number of rejected invocations (profile creations and
  uploads alike). No game is skipped because another one failed: for every game of
  the batch, either its own profile creation was rejected or its upload was issued.
\<close>

theorem upload_batch_isolation:
  "successCount (upload_batch be s) + failCount (upload_batch be s) = length (gamesToUpload s)
   \<and> successCount (upload_batch be s) = length (filter succeeded_upload (batch_calls be s))
   \<and> failCount (upload_batch be s) = length (filter rejected (batch_calls be s))
   \<and> (\<forall>g \<in> set (gamesToUpload s).
         (\<exists>e. (CreateGameProfile (game_name g) ''PC'', Rejected e) \<in> set (batch_calls be s))
         \<or> (\<exists>pid r. (UploadSaves [g] pid, r) \<in> set (batch_calls be s)))"
proof -
  let ?u = "\<lparr>successCount = 0, failCount = 0, app = s\<lparr>isUploading := True, error := None\<rparr>\<rparr>"
  have sc: "successCount (upload_batch be s) = length (filter succeeded_upload (batch_calls be s))"
    by (simp add: batch_calls_eq upload_batch_def success_upload_loop)
  have fc: "failCount (upload_batch be s) = length (filter rejected (batch_calls be s))"
    by (simp add: batch_calls_eq upload_batch_def fail_upload_loop)
  have total: "successCount (upload_batch be s) + failCount (upload_batch be s) = length (gamesToUpload s)"
    unfolding sc fc batch_calls_eq by (rule one_outcome_per_game_loop)
  have each: "\<forall>g \<in> set (gamesToUpload s).
         (\<exists>e. (CreateGameProfile (game_name g) ''PC'', Rejected e) \<in> set (batch_calls be s))
         \<or> (\<exists>pid r. (UploadSaves [g] pid, r) \<in> set (batch_calls be s))"
    unfolding batch_calls_eq by (intro ballI every_game_attempted)
  from total sc fc each show ?thesis by blast
qed

lemma sample_batch_calls:
  "batch_calls sample_backend (sample_state [''Doom'', ''Celeste'', ''Hollow Knight''] []) =
     [(CreateGameProfile ''Doom'' ''PC'', ResolvedProfile (profile_for ''Doom'' ''PC'')),
      (UploadSaves [game ''Doom''] ''id-Doom'', ResolvedUnit),
      (CreateGameProfile ''Celeste'' ''PC'', ResolvedProfile (profile_for ''Celeste'' ''PC'')),
      (UploadSaves [game ''Celeste''] ''id-Celeste'', Rejected ''network error''),
      (CreateGameProfile ''Hollow Knight'' ''PC'', ResolvedProfile (profile_for ''Hollow Knight'' ''PC'')),
      (UploadSaves [game ''Hollow Knight''] ''id-Hollow Knight'', ResolvedUnit)]"
  by (simp add: batch_calls_eq loop_calls_Cons game_calls_eq game_trace_def find_profile_def
        sample_backend_def sample_state_def gamesToUpload_def profile_for_def upload_outcome_def
        initial_state_def game_def)

theorem upload_batch_isolation_witness:
  "game ''Hollow Knight'' \<in> set (gamesToUpload (sample_state [''Doom'', ''Celeste'', ''Hollow Knight''] []))
   \<and> length (gamesToUpload (sample_state [''Doom'', ''Celeste'', ''Hollow Knight''] [])) = 3
   \<and> successCount (upload_batch sample_backend (sample_state [''Doom'', ''Celeste'', ''Hollow Knight''] [])) = 2
   \<and> failCount (upload_batch sample_backend (sample_state [''Doom'', ''Celeste'', ''Hollow Knight''] [])) = 1
   \<and> (\<exists>pid r. (UploadSaves [game ''Hollow Knight''] pid, r)
                \<in> set (batch_calls sample_backend (sample_state [''Doom'', ''Celeste'', ''Hollow Knight''] [])))"
proof -
  let ?s = "sample_state [''Doom'', ''Celeste'', ''Hollow Knight''] []"
  have g: "game ''Hollow Knight'' \<in> set (gamesToUpload ?s)"
    by (simp add: gamesToUpload_def sample_state_def game_def)
  have n: "length (gamesToUpload ?s) = 3"
    by (simp add: gamesToUpload_def sample_state_def game_def)
  note iso = upload_batch_isolation [of sample_backend ?s]
  from iso have sc: "successCount (upload_batch sample_backend ?s) = 2"
    by (simp add: sample_batch_calls)
  from iso have fc: "failCount (upload_batch sample_backend ?s) = 1"
    by (simp add: sample_batch_calls)
  from iso g have
    "(\<exists>e. (CreateGameProfile (game_name (game ''Hollow Knight'')) ''PC'', Rejected e)
            \<in> set (batch_calls sample_backend ?s))
     \<or> (\<exists>pid r. (UploadSaves [game ''Hollow Knight''] pid, r) \<in> set (batch_calls sample_backend ?s))"
    by blast
  moreover have "\<not> (\<exists>e. (CreateGameProfile (game_name (game ''Hollow Knight'')) ''PC'', Rejected e)
            \<in> set (batch_calls sample_backend ?s))"
    by (simp add: sample_batch_calls)
  ultimately have up: "\<exists>pid r. (UploadSaves [game ''Hollow Knight''] pid, r) \<in> set (batch_calls sample_backend ?s)"
    by blast
  from g n sc fc up show ?thesis by blast
qed

section \<open>Creating a profile that is missing\<close>

text \<open>
  Claim C4. \<open>cache\<close> is the profile list the handler searches. When it holds no profile
  matching the game's name, the loop body invokes \<open>create_game_profile\<close> with the
  game's name and the platform \<open>PC\<close>. If the backend returns a profile, it is appended to
  \<open>gameProfiles\<close> and the upload of this game is issued under its id. If the backend
  rejects, nothing is uploaded for this game, \<open>failCount\<close> grows by one, and the loop
  goes on with the rest of the batch.
\<close>

theorem create_profile_when_absent:
  assumes "find_profile be cache g = None"
  shows "(\<forall>p. create_game_profile be (calls (app u)) (game_name g) ''PC'' = Inr p \<longrightarrow>
            upload_game be cache g u =
              upload_under be g p
                (u\<lparr>app := (invoked (CreateGameProfile (game_name g) ''PC'') (ResolvedProfile p) (app u))
                            \<lparr>gameProfiles := gameProfiles (app u) @ [p]\<rparr>\<rparr>)
            \<and> gameProfiles (app (upload_game be cache g u)) = gameProfiles (app u) @ [p]
            \<and> (\<exists>r. game_calls be cache g u =
                      [(CreateGameProfile (game_name g) ''PC'', ResolvedProfile p),
                       (UploadSaves [g] (profile_id p), r)]))
       \<and> (\<forall>e. create_game_profile be (calls (app u)) (game_name g) ''PC'' = Inl e \<longrightarrow>
            game_calls be cache g u = [(CreateGameProfile (game_name g) ''PC'', Rejected e)]
            \<and> gameProfiles (app (upload_game be cache g u)) = gameProfiles (app u)
            \<and> failCount (upload_game be cache g u) = failCount u + 1
            \<and> successCount (upload_game be cache g u) = successCount u)
       \<and> (\<forall>rest. upload_loop be cache (g # rest) u = upload_loop be cache rest (upload_game be cache g u))"
proof (intro conjI allI impI)
  fix p
  assume c: "create_game_profile be (calls (app u)) (game_name g) ''PC'' = Inr p"
  from assms c show "upload_game be cache g u =
              upload_under be g p
                (u\<lparr>app := (invoked (CreateGameProfile (game_name g) ''PC'') (ResolvedProfile p) (app u))
                            \<lparr>gameProfiles := gameProfiles (app u) @ [p]\<rparr>\<rparr>)"
    by (simp add: upload_game_def Let_def)
  from assms c have gc: "game_calls be cache g u =
      [(CreateGameProfile (game_name g) ''PC'', ResolvedProfile p),
       (UploadSaves [g] (profile_id p),
        upload_outcome (upload_saves be (calls (app u) @ [(CreateGameProfile (game_name g) ''PC'', ResolvedProfile p)])
                          [g] (profile_id p)))]"
    by (simp add: game_calls_eq game_trace_def)
  then show "\<exists>r. game_calls be cache g u =
                      [(CreateGameProfile (game_name g) ''PC'', ResolvedProfile p),
                       (UploadSaves [g] (profile_id p), r)]"
    by blast
  from gc show "gameProfiles (app (upload_game be cache g u)) = gameProfiles (app u) @ [p]"
    by (simp add: profiles_upload_game created_profiles_def)
next
  fix e
  assume c: "create_game_profile be (calls (app u)) (game_name g) ''PC'' = Inl e"
  from assms c show gc: "game_calls be cache g u = [(CreateGameProfile (game_name g) ''PC'', Rejected e)]"
    by (simp add: game_calls_eq game_trace_def)
  from gc show "gameProfiles (app (upload_game be cache g u)) = gameProfiles (app u)"
    by (simp add: profiles_upload_game created_profiles_def)
  from gc show "failCount (upload_game be cache g u) = failCount u + 1"
    by (simp add: fail_upload_game)
  from gc show "successCount (upload_game be cache g u) = successCount u"
    by (simp add: success_upload_game)
next
  fix rest
  show "upload_loop be cache (g # rest) u = upload_loop be cache rest (upload_game be cache g u)"
    by (rule upload_loop_Cons)
qed

theorem create_profile_when_absent_witness:
  "find_profile sample_backend [] (game ''Doom'') = None
   \<and> create_game_profile sample_backend
         (calls (app \<lparr>successCount = 0, failCount = 0, app = sample_state [''Doom'', ''Hades''] []\<rparr>))
         (game_name (game ''Doom'')) ''PC'' = Inr (profile_for ''Doom'' ''PC'')
   \<and> gameProfiles (app (upload_game sample_backend [] (game ''Doom'')
                           \<lparr>successCount = 0, failCount = 0, app = sample_state [''Doom'', ''Hades''] []\<rparr>))
       = [profile_for ''Doom'' ''PC'']"
proof -
  let ?u = "\<lparr>successCount = 0, failCount = 0, app = sample_state [''Doom'', ''Hades''] []\<rparr>"
  have absent: "find_profile sample_backend [] (game ''Doom'') = None"
    by (simp add: find_profile_def)
  have created: "create_game_profile sample_backend (calls (app ?u)) (game_name (game ''Doom'')) ''PC''
                   = Inr (profile_for ''Doom'' ''PC'')"
    by (simp add: sample_backend_def game_def)
  from create_profile_when_absent [OF absent, of ?u] created
  have "gameProfiles (app (upload_game sample_backend [] (game ''Doom'') ?u))
          = gameProfiles (app ?u) @ [profile_for ''Doom'' ''PC'']"
    by blast
  then have "gameProfiles (app (upload_game sample_backend [] (game ''Doom'') ?u)) = [profile_for ''Doom'' ''PC'']"
    by (simp add: sample_state_def initial_state_def)
  with absent created show ?thesis by blast
qed

section \<open>The lookup within one batch\<close>

lemma stale_batch_calls:
  "batch_calls sample_backend (sample_state [''Doom'', ''DOOM''] []) =
     [(CreateGameProfile ''Doom'' ''PC'', ResolvedProfile (profile_for ''Doom'' ''PC'')),
      (UploadSaves [game ''Doom''] ''id-Doom'', ResolvedUnit),
      (CreateGameProfile ''DOOM'' ''PC'', ResolvedProfile (profile_for ''DOOM'' ''PC'')),
      (UploadSaves [game ''DOOM''] ''id-DOOM'', ResolvedUnit)]"
  by (simp add: batch_calls_eq loop_calls_Cons game_calls_eq game_trace_def find_profile_def
        sample_backend_def sample_state_def gamesToUpload_def profile_for_def upload_outcome_def
        initial_state_def game_def)

lemma lower_doom: "toLowerCase sample_backend ''DOOM'' = toLowerCase sample_backend ''Doom''"
  by (simp add: sample_backend_def ascii_toLowerCase_def ascii_lower_char_def)

text \<open>
  Claim C3, evaluated on a batch of two selected games named \<open>Doom\<close> and \<open>DOOM\<close>, with
  an empty profile list at the start. The two names are equal up to letter case.
  After the first pass of the loop the state cell \<open>gameProfiles\<close> holds the profile
  created for \<open>Doom\<close>, but the second pass searches the list the handler started with
  (line 170 reads the constant \<open>gameProfiles\<close> of the enclosing render), finds nothing
  and invokes \<open>create_game_profile\<close> for \<open>DOOM\<close>: the batch ends with two profiles
  whose names differ only in letter case.
\<close>

theorem lookup_misses_profile_created_in_same_batch:
  "toLowerCase sample_backend (game_name (game ''DOOM''))
     = toLowerCase sample_backend (profile_name (profile_for ''Doom'' ''PC''))
   \<and> gameProfiles (app (upload_game sample_backend (gameProfiles (sample_state [''Doom'', ''DOOM''] []))
                           (game ''Doom'')
                           \<lparr>successCount = 0, failCount = 0, app = sample_state [''Doom'', ''DOOM''] []\<rparr>))
       = [profile_for ''Doom'' ''PC'']
   \<and> batch_calls sample_backend (sample_state [''Doom'', ''DOOM''] []) =
       [(CreateGameProfile ''Doom'' ''PC'', ResolvedProfile (profile_for ''Doom'' ''PC'')),
        (UploadSaves [game ''Doom''] ''id-Doom'', ResolvedUnit),
        (CreateGameProfile ''DOOM'' ''PC'', ResolvedProfile (profile_for ''DOOM'' ''PC'')),
        (UploadSaves [game ''DOOM''] ''id-DOOM'', ResolvedUnit)]
   \<and> gameProfiles (app (upload_batch sample_backend (sample_state [''Doom'', ''DOOM''] [])))
       = [profile_for ''Doom'' ''PC'', profile_for ''DOOM'' ''PC'']"
proof -
  let ?s = "sample_state [''Doom'', ''DOOM''] []"
  let ?u = "\<lparr>successCount = 0, failCount = 0, app = ?s\<rparr>"
  have a: "toLowerCase sample_backend (game_name (game ''DOOM''))
             = toLowerCase sample_backend (profile_name (profile_for ''Doom'' ''PC''))"
    by (simp add: game_def profile_for_def lower_doom)
  have "game_calls sample_backend (gameProfiles ?s) (game ''Doom'') ?u =
          [(CreateGameProfile ''Doom'' ''PC'', ResolvedProfile (profile_for ''Doom'' ''PC'')),
           (UploadSaves [game ''Doom''] ''id-Doom'', ResolvedUnit)]"
    by (simp add: game_calls_eq game_trace_def find_profile_def sample_backend_def sample_state_def
          profile_for_def upload_outcome_def initial_state_def game_def)
  then have b: "gameProfiles (app (upload_game sample_backend (gameProfiles ?s) (game ''Doom'') ?u))
                  = [profile_for ''Doom'' ''PC'']"
    by (simp add: profiles_upload_game created_profiles_def sample_state_def initial_state_def)
  have "gameProfiles (app (upload_batch sample_backend ?s)) =
          gameProfiles ?s @ created_profiles (batch_calls sample_backend ?s)"
    by (simp add: upload_batch_def profiles_upload_loop batch_calls_eq)
  then have "gameProfiles (app (upload_batch sample_backend ?s)) =
          gameProfiles ?s @
          created_profiles
            [(CreateGameProfile ''Doom'' ''PC'', ResolvedProfile (profile_for ''Doom'' ''PC'')),
             (UploadSaves [game ''Doom''] ''id-Doom'', ResolvedUnit),
             (CreateGameProfile ''DOOM'' ''PC'', ResolvedProfile (profile_for ''DOOM'' ''PC'')),
             (UploadSaves [game ''DOOM''] ''id-DOOM'', ResolvedUnit)]"
    by (simp only: stale_batch_calls)
  then have c: "gameProfiles (app (upload_batch sample_backend ?s))
                  = [profile_for ''Doom'' ''PC'', profile_for ''DOOM'' ''PC'']"
    by (simp add: created_profiles_def sample_state_def initial_state_def)
  from a b stale_batch_calls c show ?thesis by blast
qed

section \<open>The selection after a batch\<close>

text \<open>
  Claim C5. When \<open>handleUpload\<close> ends, the set of selected games is empty, whatever
  the outcomes of the games in the batch were. (When it returns early, at line 158, no
  batch was run and the set was empty already.)
\<close>

theorem handleUpload_clears_selection: "selectedGames (handleUpload be s) = {}"
  by (simp add: handleUpload_def Let_def)

theorem handleUpload_clears_selection_witness:
  "selectedGames (sample_state [''Doom'', ''Celeste'', ''Hades''] []) = {''Doom'', ''Celeste'', ''Hades''}
   \<and> failCount (upload_batch sample_backend (sample_state [''Doom'', ''Celeste'', ''Hades''] [])) = 2
   \<and> selectedGames (handleUpload sample_backend (sample_state [''Doom'', ''Celeste'', ''Hades''] [])) = {}"
proof -
  let ?s = "sample_state [''Doom'', ''Celeste'', ''Hades''] []"
  have sel: "selectedGames ?s = {''Doom'', ''Celeste'', ''Hades''}"
    by (simp add: sample_state_def)
  have "batch_calls sample_backend ?s =
     [(CreateGameProfile ''Doom'' ''PC'', ResolvedProfile (profile_for ''Doom'' ''PC'')),
      (UploadSaves [game ''Doom''] ''id-Doom'', ResolvedUnit),
      (CreateGameProfile ''Celeste'' ''PC'', ResolvedProfile (profile_for ''Celeste'' ''PC'')),
      (UploadSaves [game ''Celeste''] ''id-Celeste'', Rejected ''network error''),
      (CreateGameProfile ''Hades'' ''PC'', Rejected ''quota exceeded'')]"
    by (simp add: batch_calls_eq loop_calls_Cons game_calls_eq game_trace_def find_profile_def
        sample_backend_def sample_state_def gamesToUpload_def profile_for_def upload_outcome_def
        initial_state_def game_def)
  moreover have "failCount (upload_batch sample_backend ?s) =
                   length (filter rejected (batch_calls sample_backend ?s))"
    by (simp add: upload_batch_def fail_upload_loop batch_calls_eq)
  ultimately have fc: "failCount (upload_batch sample_backend ?s) = 2"
    by simp
  from sel fc handleUpload_clears_selection [of sample_backend ?s] show ?thesis by blast
qed

section \<open>What a run of handleUpload leaves behind\<close>

lemma no_batch_without_selection: "selectedGames s = {} \<Longrightarrow> batch_calls be s = []"
  by (simp add: batch_calls_eq gamesToUpload_def)


lemma profiles_upload_batch:
  "gameProfiles (app (upload_batch be s)) = gameProfiles s @ created_profiles (batch_calls be s)"
  by (simp add: upload_batch_def profiles_upload_loop batch_calls_eq)


lemma profiles_handleUpload:
  "gameProfiles (handleUpload be s) = gameProfiles s @ created_profiles (batch_calls be s)"
  by (cases "selectedGames s = {}")
     (simp_all add: handleUpload_def Let_def no_batch_without_selection profiles_upload_batch
        created_profiles_def)



lemma detected_upload_under: "detectedGames (app (upload_under be g p u)) = detectedGames (app u)"
  by (simp add: upload_under_def Let_def split: sum.splits)

lemma detected_upload_game: "detectedGames (app (upload_game be cache g u)) = detectedGames (app u)"
  by (simp add: upload_game_def detected_upload_under Let_def split: option.splits sum.splits)

lemma detected_upload_loop: "detectedGames (app (upload_loop be cache gs u)) = detectedGames (app u)"
  by (induction gs arbitrary: u) (simp_all add: detected_upload_game)

lemma detected_handleUpload: "detectedGames (handleUpload be s) = detectedGames s"
  by (simp add: handleUpload_def Let_def upload_batch_def detected_upload_loop)





section \<open>Two runs in succession\<close>

lemma first_run_calls:
  "batch_calls sample_backend (sample_state [''DOOM'', ''Doom''] []) =
     [(CreateGameProfile ''DOOM'' ''PC'', ResolvedProfile (profile_for ''DOOM'' ''PC'')),
      (UploadSaves [game ''DOOM''] ''id-DOOM'', ResolvedUnit),
      (CreateGameProfile ''Doom'' ''PC'', ResolvedProfile (profile_for ''Doom'' ''PC'')),
      (UploadSaves [game ''Doom''] ''id-Doom'', ResolvedUnit)]"
  by (simp add: batch_calls_eq loop_calls_Cons game_calls_eq game_trace_def find_profile_def
        sample_backend_def sample_state_def gamesToUpload_def profile_for_def upload_outcome_def
        initial_state_def game_def)

lemma first_run_profiles:
  "gameProfiles (handleUpload sample_backend (sample_state [''DOOM'', ''Doom''] []))
     = [profile_for ''DOOM'' ''PC'', profile_for ''Doom'' ''PC'']"
proof -
  have "gameProfiles (handleUpload sample_backend (sample_state [''DOOM'', ''Doom''] [])) =
          gameProfiles (sample_state [''DOOM'', ''Doom''] []) @
          created_profiles
            [(CreateGameProfile ''DOOM'' ''PC'', ResolvedProfile (profile_for ''DOOM'' ''PC'')),
             (UploadSaves [game ''DOOM''] ''id-DOOM'', ResolvedUnit),
             (CreateGameProfile ''Doom'' ''PC'', ResolvedProfile (profile_for ''Doom'' ''PC'')),
             (UploadSaves [game ''Doom''] ''id-Doom'', ResolvedUnit)]"
    by (simp only: profiles_handleUpload first_run_calls)
  then show ?thesis
    by (simp add: created_profiles_def sample_state_def initial_state_def)
qed

text \<open>
  Claim C2, evaluated on two runs in succession over the detected games \<open>DOOM\<close> and
  \<open>Doom\<close>, both selected each time, starting with an empty profile list. The first run
  creates a profile for each of the two names and uploads \<open>Doom\<close> under the id of the
  profile created for it. The second run issues no creation request, but the first
  profile of the list that matches \<open>Doom\<close> up to letter case is the one created for
  \<open>DOOM\<close>: \<open>Doom\<close> is uploaded under another id than in the first run.
\<close>

theorem second_run_uploads_under_other_profile:
  "batch_calls sample_backend (sample_state [''DOOM'', ''Doom''] []) =
     [(CreateGameProfile ''DOOM'' ''PC'', ResolvedProfile (profile_for ''DOOM'' ''PC'')),
      (UploadSaves [game ''DOOM''] ''id-DOOM'', ResolvedUnit),
      (CreateGameProfile ''Doom'' ''PC'', ResolvedProfile (profile_for ''Doom'' ''PC'')),
      (UploadSaves [game ''Doom''] ''id-Doom'', ResolvedUnit)]
   \<and> gameProfiles (handleUpload sample_backend (sample_state [''DOOM'', ''Doom''] []))
       = [profile_for ''DOOM'' ''PC'', profile_for ''Doom'' ''PC'']
   \<and> selectedGames (selectAll (handleUpload sample_backend (sample_state [''DOOM'', ''Doom''] [])))
       = {''DOOM'', ''Doom''}
   \<and> batch_calls sample_backend (selectAll (handleUpload sample_backend (sample_state [''DOOM'', ''Doom''] [])))
       = [(UploadSaves [game ''DOOM''] ''id-DOOM'', ResolvedUnit),
          (UploadSaves [game ''Doom''] ''id-DOOM'', ResolvedUnit)]"
proof -
  let ?s = "sample_state [''DOOM'', ''Doom''] []"
  let ?s' = "selectAll (handleUpload sample_backend ?s)"
  have det: "detectedGames (handleUpload sample_backend ?s) = [game ''DOOM'', game ''Doom'']"
    by (simp add: detected_handleUpload sample_state_def)
  have sel: "selectedGames ?s' = {''DOOM'', ''Doom''}"
    by (simp add: selectAll_def det game_def)
  have gp: "gameProfiles ?s' = [profile_for ''DOOM'' ''PC'', profile_for ''Doom'' ''PC'']"
    by (simp add: selectAll_def first_run_profiles)
  have gu: "gamesToUpload ?s' = [game ''DOOM'', game ''Doom'']"
    by (simp add: gamesToUpload_def sel) (simp add: selectAll_def det game_def)
  have "batch_calls sample_backend ?s' =
          loop_calls sample_backend [profile_for ''DOOM'' ''PC'', profile_for ''Doom'' ''PC'']
            [game ''DOOM'', game ''Doom'']
            \<lparr>successCount = 0, failCount = 0, app = ?s'\<lparr>isUploading := True, error := None\<rparr>\<rparr>"
    by (simp only: batch_calls_eq gp gu)
  then have second: "batch_calls sample_backend ?s' =
          [(UploadSaves [game ''DOOM''] ''id-DOOM'', ResolvedUnit),
           (UploadSaves [game ''Doom''] ''id-DOOM'', ResolvedUnit)]"
    by (simp add: loop_calls_Cons game_calls_eq game_trace_def find_profile_def sample_backend_def
          profile_for_def upload_outcome_def game_def ascii_toLowerCase_def ascii_lower_char_def)
  from first_run_calls first_run_profiles sel second show ?thesis by (intro conjI)
qed

section \<open>The profile list during a session\<close>


lemma created_profiles_Nil [simp]: "created_profiles [] = []"
  by (simp add: created_profiles_def)












section \<open>Scanner: the aggregation invariant\<close>

lemma fold_add_sum_list:
  "fold (\<lambda>p acc. acc + f p) ps a = a + sum_list (map f ps)"
  by (induction ps arbitrary: a) (simp_all add: add.assoc)

lemma scan_entry_total:
  "scan_entry resolve fs show_time e = Some g \<Longrightarrow>
   total_size_bytes g = sum_list (map path_total_size_bytes (paths g))"
  by (auto simp: scan_entry_def Let_def fold_add_sum_list split: option.splits if_splits)

text \<open>
  Claim C6. For every \<open>DetectedGame\<close> that a scan produces, \<open>total_size_bytes\<close> is the
  sum of \<open>total_size_bytes\<close> over its \<open>paths\<close>.
\<close>

theorem scan_total_size_is_sum:
  "g \<in> set (scan resolve fs show_time entries) \<Longrightarrow>
   total_size_bytes g = sum_list (map path_total_size_bytes (paths g))"
  by (auto simp: scan_def List.map_filter_def intro: scan_entry_total)

lemma example_scan:
  "scan example_resolve example_fs show_nat [example_entry] =
     [\<lparr>game_name = ''Example Game'',
       paths = [\<lparr>pattern = ''<appdata>/ExampleGame/saves'',
                 resolved_path = ''C:/AppData/ExampleGame/saves'',
                 path_exists = True, file_count = 2, path_total_size_bytes = 4096\<rparr>],
       total_size_bytes = 4096, last_modified = Some ''200''\<rparr>]"
  by (simp add: scan_def List.map_filter_def scan_entry_def example_entry_def example_resolve_def
        example_fs_def scan_path_def Let_def show_nat.simps digit_def)

theorem scan_total_size_is_sum_witness:
  "hd (scan example_resolve example_fs show_nat [example_entry])
     \<in> set (scan example_resolve example_fs show_nat [example_entry])
   \<and> total_size_bytes (hd (scan example_resolve example_fs show_nat [example_entry])) = 4096
   \<and> sum_list (map path_total_size_bytes
                 (paths (hd (scan example_resolve example_fs show_nat [example_entry])))) = 4096"
proof -
  let ?games = "scan example_resolve example_fs show_nat [example_entry]"
  have mem: "hd ?games \<in> set ?games" by (simp add: example_scan)
  have total: "total_size_bytes (hd ?games) = 4096" by (simp add: example_scan)
  from scan_total_size_is_sum [OF mem] total
  have "sum_list (map path_total_size_bytes (paths (hd ?games))) = 4096" by simp
  with mem total show ?thesis by blast
qed

end
